theory Spec2Isabelle
  imports Main "HOL-Library.Signed_Division"
begin

section \<open>The debug session manager (debugmanager.cpp)\<close>

text \<open>
  The development embeds \<^verbatim>\<open>DebugManager\<close> and its private data
  \<^verbatim>\<open>DebugManagerPrivate\<close>. A \<^verbatim>\<open>QString\<close> is a \<open>string\<close>, the local
  8-bit encoding of a line is the line itself, and the C++ \<^verbatim>\<open>int\<close> token counter is an
  \<open>int\<close>: every value the counter takes after construction lies below \<open>10^6\<close>, far from
  the 32-bit range, and \<^verbatim>\<open>%\<close> is the truncating remainder \<open>smod\<close>.
\<close>

subsection \<open>Values of the hosting runtime\<close>

text \<open>
  \<^verbatim>\<open>QVariant\<close> carries the payload of a result record: a string, an ordered list or a
  key-ordered map of payloads.
\<close>

datatype QVariant =
    Invalid
  | VString string
  | VList "QVariant list"
  | VMap "(string \<times> QVariant) list"

datatype ProcessState = NotRunning | Starting | Running

text \<open>
  The part of \<^verbatim>\<open>QProcess\<close> the manager touches: the program and argument list set
  before the launch, the process state, and the byte strings handed to \<^verbatim>\<open>write\<close>,
  oldest first. What the operating system does with them is outside the model.
\<close>

record QProcess =
  program :: string
  arguments :: "string list"
  state :: ProcessState
  writes :: "string list"

text \<open>
  Dereferencing the empty \<^verbatim>\<open>QSharedPointer<Debugger>\<close> ends the run; it is the only
  failure a method of the manager can produce.
\<close>

datatype error = NullDebugger

subsection \<open>The debugger adapter\<close>

text \<open>
  \<^verbatim>\<open>Debugger\<close> (debugger/debugger.h) is the abstract interface of an adapter and
  \<^verbatim>\<open>GDBDebugger\<close> its one implementation; neither is part of the sources at hand.
  The interface is a record of the virtual methods the manager calls, over the adapter's
  own state \<open>'b\<close>: the builders of command text, the interpreters that change the
  adapter's state, and the state of a newly constructed adapter.
\<close>

record 'b Debugger =
  dbg_new :: 'b
  dbg_program :: string
  dbg_preArguments :: "string list"
  dbg_launchLocal :: string
  dbg_quit :: string
  dbg_kill :: string
  dbg_breakRemoveAll :: string
  dbg_breakInsert :: "string \<Rightarrow> string"
  dbg_breakRemove :: "int \<Rightarrow> string"
  dbg_stackListFrames :: string
  dbg_stackListVariables :: string
  dbg_threadInfo :: string
  dbg_commandPause :: string
  dbg_commandContinue :: string
  dbg_commandNext :: string
  dbg_commandStep :: string
  dbg_commandFinish :: string
  dbg_threadSelect :: "int \<Rightarrow> string"
  dbg_listSourceFiles :: string
  dbg_handleOutputStreamText :: "string \<Rightarrow> 'b \<Rightarrow> 'b"
  dbg_clearBreakPoint :: "'b \<Rightarrow> 'b"
  dbg_parseBreakPoint :: "QVariant \<Rightarrow> 'b \<Rightarrow> 'b"
  dbg_removeBreakPoint :: "int \<Rightarrow> 'b \<Rightarrow> 'b"
  dbg_breakpointsForFile :: "string \<Rightarrow> 'b \<Rightarrow> int list"

subsection \<open>The private data of the manager\<close>

datatype ResponseAction_t = Temporal | Persistent

text \<open>
  A response handler is a closure \<^verbatim>\<open>void(const QVariant&)\<close>. Every handler the
  manager builds reaches the adapter through \<^verbatim>\<open>d->debugger\<close>, so a handler is a
  function of the payload and of that pointer (\<open>None\<close> is the empty pointer), failing
  where it dereferences an empty one.
\<close>

type_synonym 'b ResponseHandler_t = "QVariant \<Rightarrow> 'b option \<Rightarrow> error + 'b option"

record 'b ResponseEntry =
  action :: ResponseAction_t
  handler :: "'b ResponseHandler_t"

text \<open>
  Calls on the \<^verbatim>\<open>ConditionLockEx\<close> (locker.h, not part of the sources at hand) are
  recorded in the order they are made; what the calls mean for a waiting caller is the
  subject of the section on the Sync Bridge below.
\<close>

datatype LockerCall = Wait | Fire

text \<open>Signals of the manager; \<^verbatim>\<open>gdbProcessTerminated\<close> is the one connected here.\<close>

datatype Signal = GdbProcessTerminated

record 'b DebugManagerPrivate =
  debugger :: "'b option"
  process :: QProcess
  tempBuffer :: string
  locker :: "LockerCall list"
  resposeExpected :: "int \<rightharpoonup> 'b ResponseEntry"
  tokenCounter :: int
  emitted :: "Signal list"

text \<open>The state the constructor leaves: no adapter, an idle process, counter 0.\<close>

definition DebugManager_new :: "'b DebugManagerPrivate" where
  "DebugManager_new =
     \<lparr>debugger = None,
      process = \<lparr>program = [], arguments = [], state = NotRunning, writes = []\<rparr>,
      tempBuffer = [],
      locker = [],
      resposeExpected = Map.empty,
      tokenCounter = 0,
      emitted = []\<rparr>"

subsection \<open>Process events\<close>

text \<open>
  The slot connected to \<^verbatim>\<open>QProcess::started\<close>; the process is in state
  \<^verbatim>\<open>Running\<close> when the signal is delivered.
\<close>

definition onStarted :: "'b DebugManagerPrivate \<Rightarrow> 'b DebugManagerPrivate" where
  "onStarted s = s\<lparr>tokenCounter := 0, tempBuffer := [], resposeExpected := Map.empty\<rparr>"

definition processStarted :: "'b DebugManagerPrivate \<Rightarrow> 'b DebugManagerPrivate" where
  "processStarted s = onStarted (s\<lparr>process := (process s)\<lparr>state := Running\<rparr>\<rparr>)"

text \<open>
  \<^verbatim>\<open>QProcess::finished\<close> is connected to the signal \<^verbatim>\<open>gdbProcessTerminated\<close>
  and to nothing else; the process is in state \<^verbatim>\<open>NotRunning\<close> when it is delivered.
\<close>

definition onFinished :: "'b DebugManagerPrivate \<Rightarrow> 'b DebugManagerPrivate" where
  "onFinished s = s\<lparr>emitted := emitted s @ [GdbProcessTerminated]\<rparr>"

definition processFinished :: "'b DebugManagerPrivate \<Rightarrow> 'b DebugManagerPrivate" where
  "processFinished s = onFinished (s\<lparr>process := (process s)\<lparr>state := NotRunning\<rparr>\<rparr>)"

subsection \<open>Token text\<close>

definition digit :: "nat \<Rightarrow> char" where
  "digit d = ''0123456789'' ! d"

fun dec :: "nat \<Rightarrow> string" where
  "dec n = (if n < 10 then [digit n] else dec (n div 10) @ [digit (n mod 10)])"

declare dec.simps [simp del]

text \<open>
  \<^verbatim>\<open>QString{"%1"}.arg(n, w, 10, QChar{'0'})\<close>: the decimal digits of \<open>n\<close>, filled
  with zeros on the left up to the field width \<open>w\<close>; the sign of a negative number
  comes first and counts for the width.
\<close>

definition arg_int :: "int \<Rightarrow> nat \<Rightarrow> string" where
  "arg_int n w =
     (if 0 \<le> n
      then replicate (w - length (dec (nat n))) (CHR ''0'') @ dec (nat n)
      else CHR ''-'' # replicate (w - 1 - length (dec (nat (- n)))) (CHR ''0'') @ dec (nat (- n)))"

definition newline :: string where
  "newline = [CHR 0x0A]"

text \<open>
  The rendering the specification names: the \<open>w\<close>-digit zero-padded decimal rendering,
  digit by digit from the least significant one.
\<close>

primrec zero_padded :: "nat \<Rightarrow> nat \<Rightarrow> string" where
  "zero_padded 0 n = []"
| "zero_padded (Suc w) n = zero_padded w (n div 10) @ [digit (n mod 10)]"

subsection \<open>Substring test\<close>

fun startsWith :: "string \<Rightarrow> string \<Rightarrow> bool" where
  "startsWith s [] = True"
| "startsWith [] (p # ps) = False"
| "startsWith (c # cs) (p # ps) = (c = p \<and> startsWith cs ps)"

text \<open>\<^verbatim>\<open>QString::contains\<close>, case sensitive.\<close>

fun contains :: "string \<Rightarrow> string \<Rightarrow> bool" where
  "contains [] p = (p = [])"
| "contains (c # cs) p = (startsWith (c # cs) p \<or> contains cs p)"

subsection \<open>Methods of the manager\<close>

definition initDebugger ::
  "'b Debugger \<Rightarrow> string \<Rightarrow> string list \<Rightarrow> 'b DebugManagerPrivate \<Rightarrow> 'b DebugManagerPrivate" where
  "initDebugger G prog args s =
     (let s1 = s\<lparr>process := (process s)\<lparr>arguments := args\<rparr>\<rparr>
      in if contains prog ''gdb'' then s1\<lparr>debugger := Some (dbg_new G)\<rparr> else s1)"



definition isExecuting :: "'b DebugManagerPrivate \<Rightarrow> bool" where
  "isExecuting s = (state (process s) \<noteq> NotRunning)"

text \<open>
  \<^verbatim>\<open>QProcess::start\<close> on an idle process puts it in state \<^verbatim>\<open>Starting\<close>; the
  outcome of the launch arrives later as an event.
\<close>

definition execute ::
  "'b Debugger \<Rightarrow> 'b DebugManagerPrivate \<Rightarrow> error + 'b DebugManagerPrivate" where
  "execute G s =
     (if isExecuting s then Inr s
      else case debugger s of
        None \<Rightarrow> Inl NullDebugger
      | Some b \<Rightarrow>
          (let a = fold (\<lambda>arg a. arg # a) (dbg_preArguments G) (arguments (process s))
           in Inr (s\<lparr>process := (process s)
                       \<lparr>arguments := a, program := dbg_program G, state := Starting\<rparr>\<rparr>)))"

definition command ::
  "'b Debugger \<Rightarrow> string \<Rightarrow> 'b DebugManagerPrivate \<Rightarrow> error + 'b DebugManagerPrivate" where
  "command G cmd s =
     (let tokStr = arg_int (tokenCounter s) 6;
          line = tokStr @ cmd @ newline;
          s1 = s\<lparr>tokenCounter := (tokenCounter s + 1) smod 999999\<rparr>;
          s2 = s1\<lparr>process := (process s1)\<lparr>writes := writes (process s1) @ [line]\<rparr>\<rparr>;
          sOut = ''Command:'' @ line @ newline
      in case debugger s2 of
           None \<Rightarrow> Inl NullDebugger
         | Some b \<Rightarrow> Inr (s2\<lparr>debugger := Some (dbg_handleOutputStreamText G sOut b)\<rparr>))"

definition commandAndResponse ::
  "'b Debugger \<Rightarrow> string \<Rightarrow> 'b ResponseHandler_t \<Rightarrow> ResponseAction_t \<Rightarrow>
   'b DebugManagerPrivate \<Rightarrow> error + 'b DebugManagerPrivate" where
  "commandAndResponse G cmd h a s =
     command G cmd
       (s\<lparr>resposeExpected := (resposeExpected s)(tokenCounter s \<mapsto> \<lparr>action = a, handler = h\<rparr>)\<rparr>)"

text \<open>
  Modelled from the spec: the default of the \<^verbatim>\<open>action\<close> parameter of
  \<^verbatim>\<open>commandAndResponse\<close> is declared in debugmanager.h, which is not part of the
  sources at hand; the specification has the breakpoint handlers registered one-shot.
\<close>

definition defaultAction :: ResponseAction_t where
  "defaultAction = Temporal"

definition launchLocal ::
  "'b Debugger \<Rightarrow> 'b DebugManagerPrivate \<Rightarrow> error + 'b DebugManagerPrivate" where
  "launchLocal G s =
     (case debugger s of None \<Rightarrow> Inl NullDebugger
      | Some b \<Rightarrow> command G (dbg_launchLocal G) s)"

definition quit ::
  "'b Debugger \<Rightarrow> 'b DebugManagerPrivate \<Rightarrow> error + 'b DebugManagerPrivate" where
  "quit G s =
     (case debugger s of None \<Rightarrow> Inl NullDebugger
      | Some b \<Rightarrow> command G (dbg_quit G) s)"

definition kill ::
  "'b Debugger \<Rightarrow> 'b DebugManagerPrivate \<Rightarrow> error + 'b DebugManagerPrivate" where
  "kill G s =
     (case debugger s of None \<Rightarrow> Inl NullDebugger
      | Some b \<Rightarrow> command G (dbg_kill G) s)"

text \<open>The three handlers the manager registers for breakpoint commands.\<close>

definition clearHandler :: "'b Debugger \<Rightarrow> 'b ResponseHandler_t" where
  "clearHandler G = (\<lambda>r d. case d of None \<Rightarrow> Inl NullDebugger
                               | Some b \<Rightarrow> Inr (Some (dbg_clearBreakPoint G b)))"

definition parseHandler :: "'b Debugger \<Rightarrow> 'b ResponseHandler_t" where
  "parseHandler G = (\<lambda>r d. case d of None \<Rightarrow> Inl NullDebugger
                               | Some b \<Rightarrow> Inr (Some (dbg_parseBreakPoint G r b)))"

definition removeHandler :: "'b Debugger \<Rightarrow> int \<Rightarrow> 'b ResponseHandler_t" where
  "removeHandler G bpid = (\<lambda>r d. case d of None \<Rightarrow> Inl NullDebugger
                                     | Some b \<Rightarrow> Inr (Some (dbg_removeBreakPoint G bpid b)))"



definition updateExceptResponse ::
  "int \<Rightarrow> QVariant \<Rightarrow> 'b DebugManagerPrivate \<Rightarrow> error + 'b DebugManagerPrivate" where
  "updateExceptResponse token payload s =
     (case resposeExpected s token of
        None \<Rightarrow> Inr s
      | Some expect \<Rightarrow>
          (case handler expect payload (debugger s) of
             Inl e \<Rightarrow> Inl e
           | Inr d' \<Rightarrow>
               (let s1 = s\<lparr>debugger := d'\<rparr>
                in if action expect = Temporal
                   then Inr (s1\<lparr>resposeExpected := (resposeExpected s1)(token := None)\<rparr>)
                   else Inr s1)))"

definition breakRemove ::
  "'b Debugger \<Rightarrow> int \<Rightarrow> 'b DebugManagerPrivate \<Rightarrow> error + 'b DebugManagerPrivate" where
  "breakRemove G bpid s =
     (case debugger s of None \<Rightarrow> Inl NullDebugger
      | Some b \<Rightarrow>
          commandAndResponse G (dbg_breakRemove G bpid) (removeHandler G bpid) defaultAction s)"

fun breakRemoveEach ::
  "'b Debugger \<Rightarrow> int list \<Rightarrow> 'b DebugManagerPrivate \<Rightarrow> error + 'b DebugManagerPrivate" where
  "breakRemoveEach G [] s = Inr s"
| "breakRemoveEach G (bpid # ids) s =
     (case breakRemove G bpid s of Inl e \<Rightarrow> Inl e | Inr s1 \<Rightarrow> breakRemoveEach G ids s1)"

definition removeBreakpointInFile ::
  "'b Debugger \<Rightarrow> string \<Rightarrow> 'b DebugManagerPrivate \<Rightarrow> error + 'b DebugManagerPrivate" where
  "removeBreakpointInFile G filePath s =
     (case debugger s of None \<Rightarrow> Inl NullDebugger
      | Some b \<Rightarrow> breakRemoveEach G (dbg_breakpointsForFile G filePath b) s)"




definition commandPause ::
  "'b Debugger \<Rightarrow> 'b DebugManagerPrivate \<Rightarrow> error + 'b DebugManagerPrivate" where
  "commandPause G s =
     (case debugger s of None \<Rightarrow> Inl NullDebugger
      | Some b \<Rightarrow> command G (dbg_commandPause G) s)"

definition commandContinue ::
  "'b Debugger \<Rightarrow> 'b DebugManagerPrivate \<Rightarrow> error + 'b DebugManagerPrivate" where
  "commandContinue G s =
     (case debugger s of None \<Rightarrow> Inl NullDebugger
      | Some b \<Rightarrow> command G (dbg_commandContinue G) s)"

definition commandNext ::
  "'b Debugger \<Rightarrow> 'b DebugManagerPrivate \<Rightarrow> error + 'b DebugManagerPrivate" where
  "commandNext G s =
     (case debugger s of None \<Rightarrow> Inl NullDebugger
      | Some b \<Rightarrow> command G (dbg_commandNext G) s)"

definition commandStep ::
  "'b Debugger \<Rightarrow> 'b DebugManagerPrivate \<Rightarrow> error + 'b DebugManagerPrivate" where
  "commandStep G s =
     (case debugger s of None \<Rightarrow> Inl NullDebugger
      | Some b \<Rightarrow> command G (dbg_commandStep G) s)"

definition commandFinish ::
  "'b Debugger \<Rightarrow> 'b DebugManagerPrivate \<Rightarrow> error + 'b DebugManagerPrivate" where
  "commandFinish G s =
     (case debugger s of None \<Rightarrow> Inl NullDebugger
      | Some b \<Rightarrow> command G (dbg_commandFinish G) s)"

definition threadSelect ::
  "'b Debugger \<Rightarrow> int \<Rightarrow> 'b DebugManagerPrivate \<Rightarrow> error + 'b DebugManagerPrivate" where
  "threadSelect G threadId s =
     (case debugger s of None \<Rightarrow> Inl NullDebugger
      | Some b \<Rightarrow> command G (dbg_threadSelect G threadId) s)"

definition listSourceFiles ::
  "'b Debugger \<Rightarrow> 'b DebugManagerPrivate \<Rightarrow> error + 'b DebugManagerPrivate" where
  "listSourceFiles G s =
     (case debugger s of None \<Rightarrow> Inl NullDebugger
      | Some b \<Rightarrow> command G (dbg_listSourceFiles G) s)"

subsection \<open>The Sync Bridge\<close>








subsection \<open>Result records\<close>

text \<open>
  Modelled from the spec: the record parser and the adapter's routing of output records
  (debugger/gdbmi/gdbdebugger.cpp) are not part of the sources at hand. A result record
  carries the echoed token, its result class and a payload. The specification has an
  error-class record "routed to the handler as a failure, not silently dropped", so a
  result record of any class is dispatched under its token; the manager's dispatch takes
  the token and the payload and has no parameter for the class.
\<close>

datatype ResultClass = RDone | RRunning | RConnected | RExit | RError


subsection \<open>An adapter in the MI dialect\<close>

text \<open>
  Modelled from the spec: \<^verbatim>\<open>GDBDebugger\<close> (debugger/gdbmi/gdbdebugger.cpp) is not
  part of the sources at hand. The adapter below is the concrete adapter at which the
  theorems are instantiated. It keeps the breakpoint table, keyed by the id the debugger
  assigned, and the stream text it was handed: a break-insert payload
  \<^verbatim>\<open>bkpt={number="1",file="main.c",line="10"}\<close> adds the breakpoint with id 1,
  removing an id deletes that breakpoint, and remove-all empties the table.
\<close>

record Breakpoint =
  bp_id :: int
  bp_file :: string
  bp_line :: int
  bp_enabled :: bool

record MIState =
  breakpoints :: "Breakpoint list"
  console :: "string list"

fun parse_nat :: "string \<Rightarrow> nat \<Rightarrow> nat option" where
  "parse_nat [] acc = Some acc"
| "parse_nat (c # cs) acc =
     (let v = (of_char c :: nat)
      in if 48 \<le> v \<and> v \<le> 57 then parse_nat cs (acc * 10 + (v - 48)) else None)"

definition parse_number :: "string \<Rightarrow> int option" where
  "parse_number str = (if str = [] then None else map_option int (parse_nat str 0))"

definition str_field :: "(string \<times> QVariant) list \<Rightarrow> string \<Rightarrow> string option" where
  "str_field kvs k = (case map_of kvs k of Some (VString v) \<Rightarrow> Some v | _ \<Rightarrow> None)"

definition mi_bkpt :: "QVariant \<Rightarrow> Breakpoint option" where
  "mi_bkpt r =
     (case r of
        VMap kvs \<Rightarrow>
          (case map_of kvs ''bkpt'' of
             Some (VMap f) \<Rightarrow>
               (case (Option.bind (str_field f ''number'') parse_number, str_field f ''file'',
                      Option.bind (str_field f ''line'') parse_number) of
                  (Some n, Some file, Some l) \<Rightarrow>
                    Some \<lparr>bp_id = n, bp_file = file, bp_line = l, bp_enabled = True\<rparr>
                | _ \<Rightarrow> None)
           | _ \<Rightarrow> None)
      | _ \<Rightarrow> None)"

definition mi_parseBreakPoint :: "QVariant \<Rightarrow> MIState \<Rightarrow> MIState" where
  "mi_parseBreakPoint r b =
     (case mi_bkpt r of
        None \<Rightarrow> b
      | Some bp \<Rightarrow>
          b\<lparr>breakpoints := filter (\<lambda>x. bp_id x \<noteq> bp_id bp) (breakpoints b) @ [bp]\<rparr>)"

definition mi_removeBreakPoint :: "int \<Rightarrow> MIState \<Rightarrow> MIState" where
  "mi_removeBreakPoint bpid b = b\<lparr>breakpoints := filter (\<lambda>x. bp_id x \<noteq> bpid) (breakpoints b)\<rparr>"

definition mi_clearBreakPoint :: "MIState \<Rightarrow> MIState" where
  "mi_clearBreakPoint b = b\<lparr>breakpoints := []\<rparr>"

definition mi_number :: "int \<Rightarrow> string" where
  "mi_number n = arg_int n 0"

definition mi :: "MIState Debugger" where
  "mi =
     \<lparr>dbg_new = \<lparr>breakpoints = [], console = []\<rparr>,
      dbg_program = ''gdb'',
      dbg_preArguments = [''-q'', ''-interpreter=mi''],
      dbg_launchLocal = ''-exec-run'',
      dbg_quit = ''-gdb-exit'',
      dbg_kill = ''kill'',
      dbg_breakRemoveAll = ''-break-delete'',
      dbg_breakInsert = (\<lambda>path. ''-break-insert '' @ path),
      dbg_breakRemove = (\<lambda>bpid. ''-break-delete '' @ mi_number bpid),
      dbg_stackListFrames = ''-stack-list-frames'',
      dbg_stackListVariables = ''-stack-list-variables --all-values'',
      dbg_threadInfo = ''-thread-info'',
      dbg_commandPause = ''-exec-interrupt'',
      dbg_commandContinue = ''-exec-continue'',
      dbg_commandNext = ''-exec-next'',
      dbg_commandStep = ''-exec-step'',
      dbg_commandFinish = ''-exec-finish'',
      dbg_threadSelect = (\<lambda>threadId. ''-thread-select '' @ mi_number threadId),
      dbg_listSourceFiles = ''-file-list-exec-source-files'',
      dbg_handleOutputStreamText = (\<lambda>text b. b\<lparr>console := console b @ [text]\<rparr>),
      dbg_clearBreakPoint = mi_clearBreakPoint,
      dbg_parseBreakPoint = mi_parseBreakPoint,
      dbg_removeBreakPoint = mi_removeBreakPoint,
      dbg_breakpointsForFile =
        (\<lambda>filePath b. map bp_id (filter (\<lambda>x. bp_file x = filePath) (breakpoints b)))\<rparr>"

text \<open>A manager after \<^verbatim>\<open>initDebugger\<close> chose this adapter, the process idle.\<close>

definition mi_idle :: "MIState DebugManagerPrivate" where
  "mi_idle = initDebugger mi ''/usr/bin/gdb'' [''a.out''] DebugManager_new"

text \<open>The same manager once the process has been launched and has started.\<close>

definition mi_running :: "MIState DebugManagerPrivate" where
  "mi_running = processStarted (case execute mi mi_idle of Inr s \<Rightarrow> s | Inl e \<Rightarrow> mi_idle)"

subsection \<open>Concrete payloads and states\<close>

text \<open>The breakpoint and the break-insert payload of the specification's scenario.\<close>

definition bp_main :: Breakpoint where
  "bp_main = \<lparr>bp_id = 1, bp_file = ''main.c'', bp_line = 10, bp_enabled = True\<rparr>"

definition bkpt_payload :: QVariant where
  "bkpt_payload =
     VMap [(''bkpt'', VMap [(''number'', VString ''1''), (''file'', VString ''main.c''),
                            (''line'', VString ''10'')])]"


text \<open>
  The running manager with two entries pending: token 5 one-shot, token 6 persistent.
\<close>

definition mi_pending :: "MIState DebugManagerPrivate" where
  "mi_pending =
     mi_running\<lparr>resposeExpected :=
                   [5 \<mapsto> \<lparr>action = Temporal, handler = parseHandler mi\<rparr>,
                    6 \<mapsto> \<lparr>action = Persistent, handler = parseHandler mi\<rparr>],
                 tokenCounter := 7\<rparr>"




section \<open>Auxiliary facts\<close>

subsection \<open>Token text, substring test, the concrete states\<close>

lemma digit_0: "digit 0 = CHR ''0''"
  by (simp add: digit_def)

lemma zero_padded_0: "zero_padded w 0 = replicate w (CHR ''0'')"
  by (induction w) (simp_all add: digit_0 replicate_append_same)

lemma dec_small: "n < 10 \<Longrightarrow> dec n = [digit n]"
  by (subst dec.simps) simp

lemma dec_big: "\<not> n < 10 \<Longrightarrow> dec n = dec (n div 10) @ [digit (n mod 10)]"
  by (subst dec.simps) simp

lemma pad_dec:
  "n < 10 ^ Suc k \<Longrightarrow>
   replicate (Suc k - length (dec n)) (CHR ''0'') @ dec n = zero_padded (Suc k) n"
proof (induction k arbitrary: n)
  case 0
  then show ?case by (simp add: dec_small)
next
  case (Suc k)
  show ?case
  proof (cases "n < 10")
    case True
    then show ?thesis
      by (simp add: dec_small zero_padded_0 replicate_append_same)
  next
    case False
    from Suc.prems have lt: "n div 10 < 10 ^ Suc k" by simp
    have ih: "replicate (Suc k - length (dec (n div 10))) (CHR ''0'') @ dec (n div 10)
              = zero_padded (Suc k) (n div 10)"
      using lt by (rule Suc.IH)
    have d: "dec n = dec (n div 10) @ [digit (n mod 10)]"
      using False by (rule dec_big)
    have "replicate (Suc (Suc k) - length (dec n)) (CHR ''0'') @ dec n
          = (replicate (Suc k - length (dec (n div 10))) (CHR ''0'') @ dec (n div 10))
            @ [digit (n mod 10)]"
      by (simp add: d)
    also have "\<dots> = zero_padded (Suc k) (n div 10) @ [digit (n mod 10)]"
      by (simp only: ih)
    finally show ?thesis by simp
  qed
qed

lemma arg_int_zero_padded:
  assumes "0 \<le> n" and "n < 1000000"
  shows "arg_int n 6 = zero_padded 6 (nat n)"
proof -
  have "nat n < 10 ^ Suc 5" using assms by simp
  then have "replicate (Suc 5 - length (dec (nat n))) (CHR ''0'') @ dec (nat n)
             = zero_padded (Suc 5) (nat n)"
    by (rule pad_dec)
  moreover have "Suc 5 = (6::nat)" by simp
  ultimately show ?thesis using assms by (simp add: arg_int_def)
qed

lemma length_zero_padded: "length (zero_padded w n) = w"
  by (induction w arbitrary: n) simp_all

lemma command_Some:
  "debugger s = Some b \<Longrightarrow>
   command G cmd s =
     Inr (s\<lparr>tokenCounter := (tokenCounter s + 1) smod 999999,
            process := (process s)
              \<lparr>writes := writes (process s) @ [arg_int (tokenCounter s) 6 @ cmd @ newline]\<rparr>,
            debugger := Some (dbg_handleOutputStreamText G
              (''Command:'' @ arg_int (tokenCounter s) 6 @ cmd @ newline @ newline) b)\<rparr>)"
  by (simp add: command_def Let_def)

lemma smod_999999:
  "0 \<le> t \<Longrightarrow> (t + 1) smod 999999 = (t + 1) mod (999999::int)"
  by (simp add: signed_modulo_int_def)

lemma startsWith_iff: "startsWith s p \<longleftrightarrow> (\<exists>b. s = p @ b)"
  by (induction s p rule: startsWith.induct) auto

lemma contains_iff: "contains s p \<longleftrightarrow> (\<exists>a b. s = a @ p @ b)"
proof (induction s)
  case Nil
  show ?case by auto
next
  case (Cons c cs)
  have "(\<exists>a b. c # cs = a @ p @ b) \<longleftrightarrow> (\<exists>b. c # cs = p @ b) \<or> (\<exists>a b. cs = a @ p @ b)"
  proof
    assume "\<exists>a b. c # cs = a @ p @ b"
    then obtain a b where e: "c # cs = a @ p @ b" by blast
    show "(\<exists>b. c # cs = p @ b) \<or> (\<exists>a b. cs = a @ p @ b)"
    proof (cases a)
      case Nil
      with e show ?thesis by auto
    next
      case (Cons x a')
      with e have "cs = a' @ p @ b" by simp
      then show ?thesis by blast
    qed
  next
    assume "(\<exists>b. c # cs = p @ b) \<or> (\<exists>a b. cs = a @ p @ b)"
    then show "\<exists>a b. c # cs = a @ p @ b"
    proof
      assume "\<exists>b. c # cs = p @ b"
      then obtain b where "c # cs = [] @ p @ b" by auto
      then show ?thesis by blast
    next
      assume "\<exists>a b. cs = a @ p @ b"
      then obtain a b where "cs = a @ p @ b" by blast
      then have "c # cs = (c # a) @ p @ b" by simp
      then show ?thesis by blast
    qed
  qed
  with Cons show ?case by (simp add: startsWith_iff)
qed

lemma mi_idle_eq:
  "mi_idle =
     \<lparr>debugger = Some \<lparr>breakpoints = [], console = []\<rparr>,
      process = \<lparr>program = [], arguments = [''a.out''], state = NotRunning, writes = []\<rparr>,
      tempBuffer = [], locker = [], resposeExpected = Map.empty, tokenCounter = 0,
      emitted = []\<rparr>"
  by (simp add: mi_idle_def initDebugger_def DebugManager_new_def mi_def)

lemma mi_running_eq:
  "mi_running =
     \<lparr>debugger = Some \<lparr>breakpoints = [], console = []\<rparr>,
      process = \<lparr>program = ''gdb'', arguments = [''-interpreter=mi'', ''-q'', ''a.out''],
                 state = Running, writes = []\<rparr>,
      tempBuffer = [], locker = [], resposeExpected = Map.empty, tokenCounter = 0,
      emitted = []\<rparr>"
  by (simp add: mi_running_def mi_idle_eq execute_def isExecuting_def processStarted_def
      onStarted_def mi_def)

lemma six: "(6::nat) = Suc (Suc (Suc (Suc (Suc (Suc 0)))))"
  by simp

lemma zero_padded_6:
  "zero_padded 6 n =
     [digit (n div 10 div 10 div 10 div 10 div 10 mod 10),
      digit (n div 10 div 10 div 10 div 10 mod 10),
      digit (n div 10 div 10 div 10 mod 10),
      digit (n div 10 div 10 mod 10),
      digit (n div 10 mod 10),
      digit (n mod 10)]"
  by (simp only: six zero_padded.simps append.simps)

lemma arg_int_999998: "arg_int 999998 6 = ''999998''"
  by (simp add: arg_int_zero_padded zero_padded_6 digit_def)

lemma arg_int_0: "arg_int 0 6 = ''000000''"
  by (simp add: arg_int_zero_padded zero_padded_6 digit_def)

lemma arg_int_2: "arg_int 2 6 = ''000002''"
  by (simp add: arg_int_zero_padded zero_padded_6 digit_def)

lemma mi_bkpt_payload: "mi_bkpt bkpt_payload = Some bp_main"
  by (simp add: mi_bkpt_def bkpt_payload_def str_field_def parse_number_def bp_main_def)

lemma parseHandler_bkpt:
  "parseHandler mi bkpt_payload (Some \<lparr>breakpoints = [], console = []\<rparr>) =
     Inr (Some \<lparr>breakpoints = [bp_main], console = []\<rparr>)"
  by (simp add: parseHandler_def mi_def mi_parseBreakPoint_def mi_bkpt_payload)

lemma commandAndResponse_Some:
  "debugger s = Some b \<Longrightarrow>
   commandAndResponse G cmd h a s =
     Inr (s\<lparr>resposeExpected := (resposeExpected s)(tokenCounter s \<mapsto> \<lparr>action = a, handler = h\<rparr>),
            tokenCounter := (tokenCounter s + 1) smod 999999,
            process := (process s)
              \<lparr>writes := writes (process s) @ [arg_int (tokenCounter s) 6 @ cmd @ newline]\<rparr>,
            debugger := Some (dbg_handleOutputStreamText G
              (''Command:'' @ arg_int (tokenCounter s) 6 @ cmd @ newline @ newline) b)\<rparr>)"
  by (simp add: commandAndResponse_def command_Some)

subsection \<open>The lock while a caller waits\<close>






subsection \<open>What holds of the token on every command\<close>

text \<open>
  With the counter in \<open>[0, 999999)\<close>, as the started slot and every command leave it,
  the line handed to the process is the six-digit zero-padded token, the command text and
  a newline, and the counter advances by 1 modulo 999999.
\<close>

lemma command_emits_token:
  assumes "debugger s = Some b" and "0 \<le> tokenCounter s" and "tokenCounter s < 999999"
  shows "\<exists>s'. command G cmd s = Inr s'
           \<and> writes (process s') =
               writes (process s) @ [zero_padded 6 (nat (tokenCounter s)) @ cmd @ newline]
           \<and> tokenCounter s' = (tokenCounter s + 1) mod 999999
           \<and> 0 \<le> tokenCounter s' \<and> tokenCounter s' < 999999
           \<and> debugger s' \<noteq> None"
proof -
  have a: "arg_int (tokenCounter s) 6 = zero_padded 6 (nat (tokenCounter s))"
    using assms(2,3) by (intro arg_int_zero_padded) simp_all
  have m: "(tokenCounter s + 1) smod 999999 = (tokenCounter s + 1) mod 999999"
    using assms(2) by (rule smod_999999)
  show ?thesis
    using assms(1) by (simp add: command_Some a m)
qed

text \<open>
  The third command of a fresh session carries the token \<^verbatim>\<open>000002\<close>.
\<close>

lemma third_command_line:
  assumes "debugger s = Some b"
  shows "\<exists>s1 s2 s3. command G c1 (processStarted s) = Inr s1
           \<and> command G c2 s1 = Inr s2
           \<and> listSourceFiles G s2 = Inr s3
           \<and> last (writes (process s3)) = ''000002'' @ dbg_listSourceFiles G @ newline"
  using assms
  by (simp add: listSourceFiles_def command_Some processStarted_def onStarted_def
      signed_modulo_int_def arg_int_2)

section \<open>Token issuance\<close>

text \<open>
  C1. A command's line begins with the six-digit zero-padded token and the counter then
  advances by 1 modulo 1,000,000. The code takes the remainder by 999999: at counter
  999998 the line carries token 999998 and the next counter is 0, where the claim has
  999999.
\<close>

theorem command_wraps_at_999998:
  "command mi ''-exec-next'' (mi_running\<lparr>tokenCounter := 999998\<rparr>) =
     Inr (mi_running
           \<lparr>tokenCounter := 0,
            process := (process mi_running)\<lparr>writes := [''999998-exec-next'' @ newline]\<rparr>,
            debugger := Some \<lparr>breakpoints = [],
                                console = [''Command:999998-exec-next'' @ newline @ newline]\<rparr>\<rparr>)
   \<and> (0::int) \<noteq> (999998 + 1) mod 1000000"
  by (simp add: command_def Let_def mi_running_eq arg_int_999998 signed_modulo_int_def mi_def)

section \<open>Dispatch of a result payload\<close>

text \<open>
  C2. Dispatching a payload under a token without an entry changes nothing. Under a token
  with a one-shot (\<^verbatim>\<open>Temporal\<close>) entry the handler runs once, on the payload
  and the adapter as it is, and the entry is removed; under a persistent entry the handler
  runs once and the entry stays.
\<close>

theorem updateExceptResponse_dispatch:
  "(resposeExpected s token = None \<longrightarrow> updateExceptResponse token payload s = Inr s)
   \<and> (resposeExpected s token = Some e \<and> action e = Temporal
        \<and> handler e payload (debugger s) = Inr d' \<longrightarrow>
        updateExceptResponse token payload s =
          Inr (s\<lparr>debugger := d', resposeExpected := (resposeExpected s)(token := None)\<rparr>))
   \<and> (resposeExpected s token = Some e \<and> action e = Persistent
        \<and> handler e payload (debugger s) = Inr d' \<longrightarrow>
        updateExceptResponse token payload s = Inr (s\<lparr>debugger := d'\<rparr>))"
  by (simp add: updateExceptResponse_def Let_def)

theorem updateExceptResponse_dispatch_witness:
  "updateExceptResponse 7 bkpt_payload mi_pending = Inr mi_pending
   \<and> updateExceptResponse 5 bkpt_payload mi_pending =
       Inr (mi_pending\<lparr>debugger := Some \<lparr>breakpoints = [bp_main], console = []\<rparr>,
                       resposeExpected := (resposeExpected mi_pending)(5 := None)\<rparr>)
   \<and> updateExceptResponse 6 bkpt_payload mi_pending =
       Inr (mi_pending\<lparr>debugger := Some \<lparr>breakpoints = [bp_main], console = []\<rparr>\<rparr>)"
proof -
  let ?e5 = "\<lparr>action = Temporal, handler = parseHandler mi\<rparr>"
  let ?e6 = "\<lparr>action = Persistent, handler = parseHandler mi\<rparr>"
  let ?d = "Some \<lparr>breakpoints = [bp_main], console = []\<rparr>"
  have dbg: "debugger mi_pending = Some \<lparr>breakpoints = [], console = []\<rparr>"
    by (simp add: mi_pending_def mi_running_eq)
  have n7: "resposeExpected mi_pending 7 = None"
    by (simp add: mi_pending_def)
  have h5: "resposeExpected mi_pending 5 = Some ?e5 \<and> action ?e5 = Temporal
            \<and> handler ?e5 bkpt_payload (debugger mi_pending) = Inr ?d"
    by (simp add: mi_pending_def mi_running_eq parseHandler_bkpt)
  have h6: "resposeExpected mi_pending 6 = Some ?e6 \<and> action ?e6 = Persistent
            \<and> handler ?e6 bkpt_payload (debugger mi_pending) = Inr ?d"
    by (simp add: mi_pending_def mi_running_eq parseHandler_bkpt)
  from updateExceptResponse_dispatch [of mi_pending 7 bkpt_payload] n7
  have r7: "updateExceptResponse 7 bkpt_payload mi_pending = Inr mi_pending"
    by blast
  from updateExceptResponse_dispatch [of mi_pending 5 bkpt_payload ?e5 ?d] h5
  have r5: "updateExceptResponse 5 bkpt_payload mi_pending =
              Inr (mi_pending\<lparr>debugger := ?d,
                     resposeExpected := (resposeExpected mi_pending)(5 := None)\<rparr>)"
    by blast
  from updateExceptResponse_dispatch [of mi_pending 6 bkpt_payload ?e6 ?d] h6
  have r6: "updateExceptResponse 6 bkpt_payload mi_pending = Inr (mi_pending\<lparr>debugger := ?d\<rparr>)"
    by blast
  from r7 r5 r6 show ?thesis by blast
qed

section \<open>Process start\<close>

text \<open>
  C3. A process-started event leaves the token counter at 0, the correlation table empty
  and the partial-line buffer empty, whatever the counter and the pending entries were.
\<close>

theorem started_resets:
  "tokenCounter (processStarted s) = 0
   \<and> resposeExpected (processStarted s) = Map.empty
   \<and> tempBuffer (processStarted s) = []"
  by (simp add: processStarted_def onStarted_def)

section \<open>The blocking operations\<close>




section \<open>Commands and the process state\<close>

text \<open>
  Against C5 as stated: with the process not running, \<^verbatim>\<open>command\<close> still hands
  the line to the process, advances the counter and logs the line.
\<close>

theorem command_while_not_running:
  "state (process mi_idle) = NotRunning
   \<and> command mi ''-exec-next'' mi_idle =
       Inr (mi_idle
             \<lparr>tokenCounter := 1,
              process := (process mi_idle)\<lparr>writes := [''000000-exec-next'' @ newline]\<rparr>,
              debugger := Some \<lparr>breakpoints = [],
                                  console = [''Command:000000-exec-next'' @ newline @ newline]\<rparr>\<rparr>)"
  by (simp add: command_def Let_def mi_idle_eq arg_int_0 signed_modulo_int_def mi_def)

text \<open>
  C5, amended. \<^verbatim>\<open>command\<close> does not look at the process state: called with an
  adapter set while the process is not running, it hands the tokenised line to the
  process's \<^verbatim>\<open>write\<close>, advances the counter, logs the line through the adapter
  and leaves the process state alone.
\<close>

theorem command_ignores_process_state:
  assumes "debugger s = Some b" and "\<not> isExecuting s"
  shows "\<exists>s'. command G cmd s = Inr s'
           \<and> writes (process s') =
               writes (process s) @ [arg_int (tokenCounter s) 6 @ cmd @ newline]
           \<and> tokenCounter s' = (tokenCounter s + 1) smod 999999
           \<and> debugger s' =
               Some (dbg_handleOutputStreamText G
                 (''Command:'' @ arg_int (tokenCounter s) 6 @ cmd @ newline @ newline) b)
           \<and> \<not> isExecuting s'"
  using assms by (simp add: command_Some isExecuting_def)

theorem command_ignores_process_state_witness:
  "debugger mi_idle = Some \<lparr>breakpoints = [], console = []\<rparr>
   \<and> \<not> isExecuting mi_idle
   \<and> (\<exists>s'. command mi ''-exec-next'' mi_idle = Inr s'
         \<and> writes (process s') = [''000000-exec-next'' @ newline]
         \<and> tokenCounter s' = 1
         \<and> debugger s' =
             Some \<lparr>breakpoints = [],
                   console = [''Command:000000-exec-next'' @ newline @ newline]\<rparr>
         \<and> \<not> isExecuting s')"
proof -
  have h: "debugger mi_idle = Some \<lparr>breakpoints = [], console = []\<rparr>"
    by (simp add: mi_idle_eq)
  have n: "\<not> isExecuting mi_idle"
    by (simp add: isExecuting_def mi_idle_eq)
  have w: "writes (process mi_idle) = []" and t: "tokenCounter mi_idle = 0"
    by (simp_all add: mi_idle_eq)
  from command_ignores_process_state [OF h n, of mi "''-exec-next''"] h n
  show ?thesis
    by (simp add: w t arg_int_0 signed_modulo_int_def mi_def)
qed

section \<open>Process exit\<close>

text \<open>
  Against C6 as stated: after the process has finished with tokens 5 and 6 pending, both
  entries are still in the correlation table.
\<close>

theorem finished_keeps_entries:
  "resposeExpected (processFinished mi_pending) 5 =
     Some \<lparr>action = Temporal, handler = parseHandler mi\<rparr>
   \<and> resposeExpected (processFinished mi_pending) 6 =
     Some \<lparr>action = Persistent, handler = parseHandler mi\<rparr>
   \<and> state (process (processFinished mi_pending)) = NotRunning"
  by (simp add: processFinished_def onFinished_def mi_pending_def)

text \<open>
  C6, amended. When the process exits, exactly one termination signal is emitted, no
  handler runs and the pending entries stay in the table; the next process-started event
  discards them, again without running a handler.
\<close>

theorem finished_then_started:
  "emitted (processFinished s) = emitted s @ [GdbProcessTerminated]
   \<and> state (process (processFinished s)) = NotRunning
   \<and> debugger (processFinished s) = debugger s
   \<and> resposeExpected (processFinished s) = resposeExpected s
   \<and> resposeExpected (processStarted (processFinished s)) = Map.empty
   \<and> debugger (processStarted (processFinished s)) = debugger s
   \<and> emitted (processStarted (processFinished s)) = emitted s @ [GdbProcessTerminated]"
  by (simp add: processFinished_def onFinished_def processStarted_def onStarted_def)

section \<open>Registering under a pending token\<close>

text \<open>
  Against C7 as stated: with a persistent entry pending under token 6 and the counter at
  6, \<^verbatim>\<open>commandAndResponse\<close> returns normally, the line is written and the new
  entry has taken the place of the old one.
\<close>

theorem commandAndResponse_overwrites:
  "resposeExpected (mi_pending\<lparr>tokenCounter := 6\<rparr>) 6 =
     Some \<lparr>action = Persistent, handler = parseHandler mi\<rparr>
   \<and> commandAndResponse mi ''-break-delete'' (clearHandler mi) Temporal
       (mi_pending\<lparr>tokenCounter := 6\<rparr>) =
     Inr (mi_pending
           \<lparr>resposeExpected :=
              [5 \<mapsto> \<lparr>action = Temporal, handler = parseHandler mi\<rparr>,
               6 \<mapsto> \<lparr>action = Temporal, handler = clearHandler mi\<rparr>],
            tokenCounter := 7,
            process := (process mi_pending)\<lparr>writes := [''000006-break-delete'' @ newline]\<rparr>,
            debugger := Some \<lparr>breakpoints = [],
                                console = [''Command:000006-break-delete'' @ newline @ newline]\<rparr>\<rparr>)"
  by (simp add: commandAndResponse_def command_def Let_def mi_pending_def mi_running_eq
      arg_int_zero_padded zero_padded_6 digit_def signed_modulo_int_def mi_def)

text \<open>
  C7, amended. \<^verbatim>\<open>commandAndResponse\<close> with a token that already has a pending
  entry raises nothing: the new entry replaces the old one, the set of pending tokens is
  the same, and the line is written. The table holds one entry for a token at most.
\<close>

theorem commandAndResponse_replaces:
  assumes "debugger s = Some b" and "resposeExpected s (tokenCounter s) = Some e"
  shows "\<exists>s'. commandAndResponse G cmd h a s = Inr s'
           \<and> resposeExpected s' =
               (resposeExpected s)(tokenCounter s \<mapsto> \<lparr>action = a, handler = h\<rparr>)
           \<and> dom (resposeExpected s') = dom (resposeExpected s)
           \<and> writes (process s') =
               writes (process s) @ [arg_int (tokenCounter s) 6 @ cmd @ newline]"
  using assms by (auto simp add: commandAndResponse_Some)

theorem commandAndResponse_replaces_witness:
  "debugger (mi_pending\<lparr>tokenCounter := 6\<rparr>) = Some \<lparr>breakpoints = [], console = []\<rparr>
   \<and> resposeExpected (mi_pending\<lparr>tokenCounter := 6\<rparr>) (tokenCounter (mi_pending\<lparr>tokenCounter := 6\<rparr>)) =
       Some \<lparr>action = Persistent, handler = parseHandler mi\<rparr>
   \<and> (\<exists>s'. commandAndResponse mi ''-break-delete'' (clearHandler mi) Temporal
               (mi_pending\<lparr>tokenCounter := 6\<rparr>) = Inr s'
         \<and> resposeExpected s' 6 = Some \<lparr>action = Temporal, handler = clearHandler mi\<rparr>
         \<and> dom (resposeExpected s') = {5, 6}
         \<and> writes (process s') = [''000006-break-delete'' @ newline])"
proof -
  let ?s = "mi_pending\<lparr>tokenCounter := 6\<rparr>"
  let ?e = "\<lparr>action = Persistent, handler = parseHandler mi\<rparr>"
  have h: "debugger ?s = Some \<lparr>breakpoints = [], console = []\<rparr>"
    by (simp add: mi_pending_def mi_running_eq)
  have p: "resposeExpected ?s (tokenCounter ?s) = Some ?e"
    by (simp add: mi_pending_def)
  have d: "dom (resposeExpected ?s) = {5, 6}"
    by (auto simp add: mi_pending_def)
  have t: "tokenCounter ?s = 6"
    by simp
  have a: "arg_int 6 6 = ''000006''"
    by (simp add: arg_int_zero_padded zero_padded_6 digit_def)
  from commandAndResponse_replaces [OF h p, of mi "''-break-delete''" "clearHandler mi" Temporal]
  obtain s' where
    r: "commandAndResponse mi ''-break-delete'' (clearHandler mi) Temporal ?s = Inr s'"
    and e: "resposeExpected s' =
              (resposeExpected ?s)(tokenCounter ?s \<mapsto> \<lparr>action = Temporal, handler = clearHandler mi\<rparr>)"
    and dm: "dom (resposeExpected s') = dom (resposeExpected ?s)"
    and wr: "writes (process s') =
               writes (process ?s) @ [arg_int (tokenCounter ?s) 6 @ ''-break-delete'' @ newline]"
    by blast
  have "resposeExpected s' 6 = Some \<lparr>action = Temporal, handler = clearHandler mi\<rparr>"
    using e by (simp add: t)
  moreover have "dom (resposeExpected s') = {5, 6}"
    using dm d by simp
  moreover have "writes (process s') = [''000006-break-delete'' @ newline]"
    using wr by (simp add: mi_pending_def mi_running_eq a)
  ultimately show ?thesis using h p r by blast
qed

section \<open>The breakpoint handlers\<close>




section \<open>Launch\<close>

text \<open>
  C9. \<^verbatim>\<open>execute\<close> called while the process is not in state
  \<^verbatim>\<open>NotRunning\<close> returns at once: nothing is started and the program and the
  argument list, like the rest of the state, are as before.
\<close>

theorem execute_while_executing:
  "isExecuting s \<Longrightarrow> execute G s = Inr s"
  by (simp add: execute_def)

theorem execute_while_executing_witness:
  "isExecuting mi_running \<and> execute mi mi_running = Inr mi_running"
proof -
  have h: "isExecuting mi_running"
    by (simp add: isExecuting_def mi_running_eq)
  from execute_while_executing [OF h, of mi] h show ?thesis by blast
qed

section \<open>Choice of the adapter\<close>

text \<open>
  Against C10 as stated: on a manager that chose the adapter in an earlier call,
  \<^verbatim>\<open>initDebugger\<close> with a program that does not contain \<^verbatim>\<open>gdb\<close> leaves
  that adapter set.
\<close>

theorem initDebugger_keeps_earlier_adapter:
  "\<not> contains ''/usr/bin/lldb'' ''gdb''
   \<and> debugger (initDebugger mi ''/usr/bin/lldb'' [''a.out''] mi_idle) =
       Some \<lparr>breakpoints = [], console = []\<rparr>"
  by (simp add: initDebugger_def Let_def mi_idle_eq)

text \<open>
  C10, amended. \<^verbatim>\<open>initDebugger\<close> stores the argument list in every case. It
  installs a new adapter exactly when the program string contains \<^verbatim>\<open>gdb\<close>;
  otherwise the adapter pointer is left as it was: unset on a manager that had none, as
  the constructor leaves it, and the earlier adapter on a manager that had one.
\<close>

theorem initDebugger_selects:
  "arguments (process (initDebugger G prog args s)) = args
   \<and> (contains prog ''gdb'' \<longrightarrow> debugger (initDebugger G prog args s) = Some (dbg_new G))
   \<and> (\<not> contains prog ''gdb'' \<longrightarrow> debugger (initDebugger G prog args s) = debugger s)
   \<and> (\<not> contains prog ''gdb'' \<longrightarrow>
        debugger (initDebugger G prog args (DebugManager_new :: 'b DebugManagerPrivate)) = None)"
  by (simp add: initDebugger_def Let_def DebugManager_new_def)

theorem initDebugger_selects_witness:
  "contains ''/usr/bin/gdb'' ''gdb''
   \<and> debugger (initDebugger mi ''/usr/bin/gdb'' [''a.out''] DebugManager_new) = Some (dbg_new mi)
   \<and> arguments (process (initDebugger mi ''/usr/bin/gdb'' [''a.out''] DebugManager_new)) = [''a.out'']
   \<and> \<not> contains ''/usr/bin/lldb'' ''gdb''
   \<and> debugger (initDebugger mi ''/usr/bin/lldb'' [''a.out''] DebugManager_new) = None
   \<and> debugger (initDebugger mi ''/usr/bin/lldb'' [''a.out''] mi_running) = debugger mi_running"
proof -
  have g: "contains ''/usr/bin/gdb'' ''gdb''" by simp
  have l: "\<not> contains ''/usr/bin/lldb'' ''gdb''" by simp
  from initDebugger_selects [of mi "''/usr/bin/gdb''" "[''a.out'']" DebugManager_new] g
       initDebugger_selects [of mi "''/usr/bin/lldb''" "[''a.out'']" mi_running] l
  show ?thesis by blast
qed

end
